theory Spec2Isabelle
  imports Complex_Main "HOL-Library.Multiset" "HOL-Library.Product_Lexorder" "HOL-Library.AList"
begin

section \<open>County clustering and spatial network analysis\<close>

text \<open>
  A shallow embedding of \<^verbatim>\<open>src/clustering.py\<close> and \<^verbatim>\<open>src/spatial_analysis.py\<close>.

  Conventions of the embedding.
  \<^item> A float is a real number: rounding and overflow are not modelled. The one non-finite
    value the modelled arithmetic can produce from finite input, the result of a division
    by zero, is kept (type \<open>npfloat\<close>).
  \<^item> An exception that propagates out of a function is the \<open>Inl\<close> branch of its result.
    The source defines no exception class and has no \<^verbatim>\<open>raise\<close> statement: every failure
    is one raised inside a library call.
  \<^item> A library call whose result the source does not determine (K-Means, the silhouette
    score, PageRank, the geometric \<^verbatim>\<open>touches\<close> predicate, the order that an unstable
    sort gives to equal keys) is a parameter of the function that makes the call; what
    the library documents about the call is written into the model around the parameter.
\<close>

subsection \<open>Exceptions\<close>

text \<open>
  \<open>ValueError\<close>, \<open>KeyError\<close>, \<open>IndexError\<close> and \<open>TypeError\<close> are the Python exceptions the
  library calls of the source raise. \<open>InvalidInputError\<close> and \<open>InsufficientDataError\<close> are
  the two error names of the specification's taxonomy; no statement of the source raises
  either, they are here so that a statement about them can be written down.
\<close>

datatype error =
    ValueError
  | KeyError
  | IndexError
  | TypeError
  | InvalidInputError
  | InsufficientDataError

subsection \<open>numpy arithmetic on a matrix of floats\<close>

datatype npfloat = Fin real | PosInf | NegInf | NaN

type_synonym matrix = "real list list"

text \<open>\<^verbatim>\<open>a / b\<close> on floats: numpy warns and yields \<^verbatim>\<open>nan\<close> for 0/0 and an infinity for x/0.\<close>

definition np_divide :: "real \<Rightarrow> real \<Rightarrow> npfloat" where
  "np_divide a b =
     (if b = 0 then (if a = 0 then NaN else if 0 < a then PosInf else NegInf)
      else Fin (a / b))"

text \<open>\<^verbatim>\<open>1 - x\<close>.\<close>

fun one_minus :: "npfloat \<Rightarrow> npfloat" where
  "one_minus (Fin x) = Fin (1 - x)"
| "one_minus PosInf = NegInf"
| "one_minus NegInf = PosInf"
| "one_minus NaN = NaN"

text \<open>
  \<^verbatim>\<open>np.fill_diagonal(a, 0)\<close> on a two-dimensional array: entry \<open>(i, i)\<close> of every row \<open>i\<close>
  that has a column \<open>i\<close> becomes 0.
\<close>

definition fill_diagonal :: "npfloat list list \<Rightarrow> npfloat \<Rightarrow> npfloat list list" where
  "fill_diagonal a v = map (\<lambda>(i, row). row[i := v]) (enumerate 0 a)"

text \<open>
  Lines 104 to 108 of \<^verbatim>\<open>perform_clustering\<close>:
  \<^verbatim>\<open>
    similarity = similarity_df.values
    similarity = (similarity - similarity.min()) / (similarity.max() - similarity.min())
    distance_matrix = 1 - similarity
    np.fill_diagonal(distance_matrix, 0)
  \<close>
  \<^verbatim>\<open>min()\<close> and \<^verbatim>\<open>max()\<close> reduce over all entries and raise \<^verbatim>\<open>ValueError\<close> on an array
  with no entry.
\<close>

definition normalize_similarity :: "matrix \<Rightarrow> error + npfloat list list" where
  "normalize_similarity similarity =
     (let entries = concat similarity in
      if entries = [] then Inl ValueError
      else
        let lo = Min (set entries); hi = Max (set entries)
        in Inr (map (map (\<lambda>x. np_divide (x - lo) (hi - lo))) similarity))"

definition distance_matrix :: "matrix \<Rightarrow> error + npfloat list list" where
  "distance_matrix similarity =
     (case normalize_similarity similarity of
        Inl e \<Rightarrow> Inl e
      | Inr normalized \<Rightarrow> Inr (fill_diagonal (map (map one_minus) normalized) (Fin 0)))"


subsection \<open>K-Means and the silhouette score\<close>

text \<open>
  \<^verbatim>\<open>KMeans(n_clusters=k, random_state=42).fit_predict(X)\<close> yields the labels, and the
  fitted object its \<^verbatim>\<open>inertia_\<close>. The fit itself (seeded k-means++ initialisation, Lloyd
  iterations on floats) is the parameter \<open>km\<close>. What scikit-learn checks before it fits is
  modelled: the parameter check (\<^verbatim>\<open>n_clusters\<close> at least 1), the input check (at least one
  sample and one feature, every entry finite) and
  \<^verbatim>\<open>n_samples should be >= n_clusters\<close>; each raises \<^verbatim>\<open>ValueError\<close>.
\<close>

type_synonym kmeans = "nat \<Rightarrow> matrix \<Rightarrow> error + (nat list \<times> real)"

fun the_finite :: "npfloat \<Rightarrow> real option" where
  "the_finite (Fin x) = Some x"
| "the_finite PosInf = None"
| "the_finite NegInf = None"
| "the_finite NaN = None"

definition all_finite :: "npfloat list list \<Rightarrow> bool" where
  "all_finite X = list_all (list_all (\<lambda>x. the_finite x \<noteq> None)) X"

definition KMeans_fit :: "kmeans \<Rightarrow> int \<Rightarrow> matrix \<Rightarrow> error + (nat list \<times> real)" where
  "KMeans_fit km n_clusters X =
     (if n_clusters < 1 then Inl ValueError
      else if X = [] \<or> list_ex (\<lambda>row. row = []) X then Inl ValueError
      else if int (length X) < n_clusters then Inl ValueError
      else km (nat n_clusters) X)"

definition KMeans_fit_np :: "kmeans \<Rightarrow> int \<Rightarrow> npfloat list list \<Rightarrow> error + (nat list \<times> real)" where
  "KMeans_fit_np km n_clusters X =
     (if n_clusters < 1 then Inl ValueError
      else if \<not> all_finite X then Inl ValueError
      else KMeans_fit km n_clusters (map (map (\<lambda>x. the (the_finite x))) X))"

text \<open>
  \<^verbatim>\<open>silhouette_score(D, labels, metric='precomputed')\<close>. The score is the parameter \<open>sil\<close>.
  The documented checks are modelled, each raising \<^verbatim>\<open>ValueError\<close>: one label per row, a
  square matrix with zeros on the diagonal, and a number of distinct labels between 2 and
  \<^verbatim>\<open>n_samples - 1\<close>.
\<close>

type_synonym silhouette = "matrix \<Rightarrow> nat list \<Rightarrow> error + real"

definition silhouette_score :: "silhouette \<Rightarrow> matrix \<Rightarrow> nat list \<Rightarrow> error + real" where
  "silhouette_score sil D labels =
     (let n_samples = length D; n_labels = length (remdups labels) in
      if length labels \<noteq> n_samples then Inl ValueError
      else if \<not> list_all (\<lambda>row. length row = n_samples) D then Inl ValueError
      else if \<not> list_all (\<lambda>(i, row). row ! i = 0) (enumerate 0 D) then Inl ValueError
      else if 2 \<le> n_labels \<and> n_labels + 1 \<le> n_samples then sil D labels
      else Inl ValueError)"

subsection \<open>Similarity frames\<close>

text \<open>
  A pandas frame of floats with labelled rows and columns: \<open>df_values ! i ! j\<close> is the cell
  in the row labelled \<open>df_index ! i\<close> and the column labelled \<open>df_columns ! j\<close>. A frame is
  rectangular (\<open>wf_frame\<close>); the functions below are meant for such frames only.
\<close>

record sim_frame =
  df_index :: "string list"
  df_columns :: "string list"
  df_values :: matrix

definition wf_frame :: "sim_frame \<Rightarrow> bool" where
  "wf_frame df \<longleftrightarrow>
     length (df_values df) = length (df_index df) \<and>
     list_all (\<lambda>row. length row = length (df_columns df)) (df_values df)"

subsection \<open>\<^verbatim>\<open>perform_clustering\<close>\<close>

text \<open>
  \<^verbatim>\<open>
    kmeans = KMeans(n_clusters=n_clusters, random_state=42)
    labels = kmeans.fit_predict(distance_matrix)
    clustered_df = pd.DataFrame({'GEOID': similarity_df.index, 'Cluster': labels})
  \<close>
  The frame constructor raises \<^verbatim>\<open>ValueError\<close> when the two columns differ in length.
\<close>

definition perform_clustering ::
  "kmeans \<Rightarrow> sim_frame \<Rightarrow> int \<Rightarrow> error + (string \<times> nat) list" where
  "perform_clustering km similarity_df n_clusters =
     (case distance_matrix (df_values similarity_df) of
        Inl e \<Rightarrow> Inl e
      | Inr dm \<Rightarrow>
          (case KMeans_fit_np km n_clusters dm of
             Inl e \<Rightarrow> Inl e
           | Inr (labels, inertia) \<Rightarrow>
               if length labels = length (df_index similarity_df)
               then Inr (zip (df_index similarity_df) labels)
               else Inl ValueError))"

subsection \<open>\<^verbatim>\<open>sort_values\<close> and \<^verbatim>\<open>head\<close>\<close>

text \<open>
  \<^verbatim>\<open>sort_values(by=c, ascending=False)\<close> is called without \<^verbatim>\<open>kind\<close>, so pandas sorts with
  its default \<^verbatim>\<open>kind='quicksort'\<close>, which its documentation lists as not stable: the rows
  come back ordered by non-increasing key, and the order among rows of equal key is the
  sorting routine's. The routine is therefore a parameter \<open>srt\<close>; \<open>sort_values_desc key srt\<close>
  says that \<open>srt\<close> does what the call is documented to do for the column \<open>key\<close>.
\<close>

definition sort_values_desc :: "('r \<Rightarrow> real) \<Rightarrow> ('r list \<Rightarrow> 'r list) \<Rightarrow> bool" where
  "sort_values_desc key srt \<longleftrightarrow>
     (\<forall>rows. mset (srt rows) = mset rows \<and> sorted_wrt (\<lambda>a b. key b \<le> key a) (srt rows))"

text \<open>A routine that does, and keeps rows of equal key in their order.\<close>

definition stable_sort_desc :: "('r \<Rightarrow> real) \<Rightarrow> 'r list \<Rightarrow> 'r list" where
  "stable_sort_desc key rows = sort_key (\<lambda>r. - key r) rows"

text \<open>
  The routine that runs. pandas sorts one column with \<^verbatim>\<open>nargsort\<close>, which for a descending
  sort reverses the column, calls numpy's \<^verbatim>\<open>argsort\<close> with the given kind, and reverses the
  positions that come back:
  \<^verbatim>\<open>
    if not ascending:
        non_nans = non_nans[::-1]
        non_nan_idx = non_nan_idx[::-1]
    indexer = non_nan_idx[non_nans.argsort(kind=kind)]
    if not ascending:
        indexer = indexer[::-1]
  \<close>
  In the x86-64 builds of numpy that dispatch to AVX-512 or AVX2, \<^verbatim>\<open>argsort\<close> of a float64
  array with \<^verbatim>\<open>kind='quicksort'\<close> is a vectorised sort, and a short array goes through its
  bitonic sorting network: the keys are padded with \<open>+\<infinity>\<close> to 8, 16, 32 or 64 lanes and a
  fixed sequence of compare-exchanges is applied. A compare-exchange of the lanes \<open>p < q\<close>
  puts the smaller key in \<open>p\<close> and the larger in \<open>q\<close>, and moves nothing when the keys are
  equal. The positions travel with the keys; here the rows themselves are in the lanes, and
  \<open>None\<close> is a padding lane.
\<close>

definition compare_exchange :: "('r \<Rightarrow> real) \<Rightarrow> nat \<times> nat \<Rightarrow> 'r option list \<Rightarrow> 'r option list" where
  "compare_exchange key pq lanes =
     (case (lanes ! fst pq, lanes ! snd pq) of
        (Some a, Some b) \<Rightarrow> if key b < key a then lanes[fst pq := Some b, snd pq := Some a] else lanes
      | (None, Some b) \<Rightarrow> lanes[fst pq := Some b, snd pq := None]
      | _ \<Rightarrow> lanes)"

text \<open>
  The network merges sorted blocks of 1, 2, 4, ... lanes pairwise. To merge two blocks into
  one of \<open>b\<close> lanes, lane \<open>i\<close> of the block is first compared with lane \<open>b - 1 - i\<close>, and then
  lanes at the distances \<open>b/4\<close>, \<open>b/8\<close>, ..., 1 are compared.
\<close>

definition mirror_stage :: "nat \<Rightarrow> nat \<Rightarrow> (nat \<times> nat) list" where
  "mirror_stage b n =
     concat (map (\<lambda>k. map (\<lambda>i. (k * b + i, k * b + (b - 1 - i))) [0..<b div 2]) [0..<n div b])"

definition clean_stage :: "nat \<Rightarrow> nat \<Rightarrow> (nat \<times> nat) list" where
  "clean_stage d n = map (\<lambda>p. (p, p + d)) (filter (\<lambda>p. even (p div d)) [0..<n])"

fun halvings :: "nat \<Rightarrow> nat list" where
  "halvings d = (if d = 0 then [] else d # halvings (d div 2))"

declare halvings.simps [simp del]

definition merge_stages :: "nat \<Rightarrow> nat \<Rightarrow> (nat \<times> nat) list" where
  "merge_stages b n = mirror_stage b n @ concat (map (\<lambda>d. clean_stage d n) (halvings (b div 4)))"

definition bitonic_network :: "nat \<Rightarrow> (nat \<times> nat) list" where
  "bitonic_network n = concat (map (\<lambda>b. merge_stages b n) (rev (filter (\<lambda>b. 2 \<le> b) (halvings n))))"

definition padded_length :: "nat \<Rightarrow> nat" where
  "padded_length n = hd (filter (\<lambda>m. n \<le> m) [8, 16, 32, 64])"

definition np_argsort :: "('r \<Rightarrow> real) \<Rightarrow> 'r list \<Rightarrow> 'r list" where
  "np_argsort key rows =
     (let n = padded_length (length rows);
          lanes = map Some rows @ replicate (n - length rows) None
      in List.map_filter id (fold (compare_exchange key) (bitonic_network n) lanes))"

text \<open>
  A longer array is first partitioned around pivots, and only its parts go through the
  network. The partitioning is not modelled: columns of more than 64 rows are sorted here
  as by \<open>stable_sort_desc\<close>, so that for them only the keys of the result are the library's.
\<close>

definition nargsort_desc :: "('r \<Rightarrow> real) \<Rightarrow> 'r list \<Rightarrow> 'r list" where
  "nargsort_desc key rows =
     (if length rows \<le> 64 then rev (np_argsort key (rev rows)) else stable_sort_desc key rows)"

text \<open>\<^verbatim>\<open>head(n)\<close>: the first \<open>n\<close> rows; for negative \<open>n\<close>, all rows but the last \<open>-n\<close>.\<close>

definition head :: "int \<Rightarrow> 'r list \<Rightarrow> 'r list" where
  "head n rows = (if 0 \<le> n then take (nat n) rows else take (length rows - nat (- n)) rows)"

subsection \<open>\<^verbatim>\<open>get_top_similar_pairs\<close>\<close>

text \<open>
  \<^verbatim>\<open>similarity_df.unstack().reset_index()\<close> lists the cells column by column: one row
  (column label, row label, value) per cell, the column label varying slowest. The source
  names the three columns \<^verbatim>\<open>GEOID_1\<close>, \<^verbatim>\<open>GEOID_2\<close>, \<^verbatim>\<open>Similarity\<close>.
\<close>

type_synonym pair_row = "string \<times> string \<times> real"

definition GEOID_1 :: "pair_row \<Rightarrow> string" where "GEOID_1 r = fst r"
definition GEOID_2 :: "pair_row \<Rightarrow> string" where "GEOID_2 r = fst (snd r)"
definition Similarity :: "pair_row \<Rightarrow> real" where "Similarity r = snd (snd r)"

definition unstack :: "sim_frame \<Rightarrow> pair_row list" where
  "unstack df =
     concat (map (\<lambda>(j, c). map (\<lambda>(i, r). (c, r, df_values df ! i ! j)) (enumerate 0 (df_index df)))
                 (enumerate 0 (df_columns df)))"

definition off_diagonal :: "sim_frame \<Rightarrow> pair_row list" where
  "off_diagonal df = filter (\<lambda>r. GEOID_1 r \<noteq> GEOID_2 r) (unstack df)"

definition get_top_similar_pairs ::
  "(pair_row list \<Rightarrow> pair_row list) \<Rightarrow> sim_frame \<Rightarrow> int \<Rightarrow> pair_row list" where
  "get_top_similar_pairs srt similarity_df n = head n (srt (off_diagonal similarity_df))"

text \<open>
  Rows of equal similarity are in enumeration order: for every value, the rows of \<open>out\<close>
  with that similarity are, in this order, the first such rows of the enumeration.
\<close>

definition ties_in_enumeration_order :: "pair_row list \<Rightarrow> pair_row list \<Rightarrow> bool" where
  "ties_in_enumeration_order enum out \<longleftrightarrow>
     (\<forall>v \<in> Similarity ` set out.
        filter (\<lambda>r. Similarity r = v) out =
        take (length (filter (\<lambda>r. Similarity r = v) out)) (filter (\<lambda>r. Similarity r = v) enum))"

subsection \<open>\<^verbatim>\<open>evaluate_clustering_performance\<close>\<close>

text \<open>
  \<^verbatim>\<open>
    for k in k_range:
        kmeans = KMeans(n_clusters=k, random_state=42)
        labels = kmeans.fit_predict(distance_matrix)
        inertia.append(kmeans.inertia_)
        silhouette_scores.append(silhouette_score(distance_matrix, labels, metric='precomputed'))
    return {'k_values': list(k_range), 'inertia': inertia, 'silhouette': silhouette_scores}
  \<close>
  The loop carries the two lists; an exception in an iteration leaves the function, and
  with it the lists collected so far.
\<close>

record metrics =
  k_values :: "int list"
  inertia :: "real list"
  silhouette :: "real list"

fun evaluate_loop ::
  "kmeans \<Rightarrow> silhouette \<Rightarrow> matrix \<Rightarrow> int list \<Rightarrow> real list \<times> real list
     \<Rightarrow> error + (real list \<times> real list)" where
  "evaluate_loop km sil D [] acc = Inr acc"
| "evaluate_loop km sil D (k # ks) (inertia_acc, silhouette_acc) =
     (case KMeans_fit km k D of
        Inl e \<Rightarrow> Inl e
      | Inr (labels, inertia_k) \<Rightarrow>
          (case silhouette_score sil D labels of
             Inl e \<Rightarrow> Inl e
           | Inr s \<Rightarrow> evaluate_loop km sil D ks (inertia_acc @ [inertia_k], silhouette_acc @ [s])))"

definition evaluate_clustering_performance ::
  "kmeans \<Rightarrow> silhouette \<Rightarrow> matrix \<Rightarrow> int list \<Rightarrow> error + metrics" where
  "evaluate_clustering_performance km sil D k_range =
     (case evaluate_loop km sil D k_range ([], []) of
        Inl e \<Rightarrow> Inl e
      | Inr (inertia_list, silhouette_list) \<Rightarrow>
          Inr \<lparr>k_values = k_range, inertia = inertia_list, silhouette = silhouette_list\<rparr>)"




subsection \<open>networkx graphs\<close>

text \<open>
  A county is the pair of its state code and its county code. A \<^verbatim>\<open>networkx.Graph\<close> is a
  dictionary from nodes to the dictionary of their neighbours; both keep insertion order.
  Here: an association list from nodes to neighbour lists. \<open>AList.update\<close> replaces the
  value of a key that is present and appends a key that is not, as a dictionary
  assignment does.
\<close>

type_synonym county_key = "int \<times> int"

type_synonym graph = "(county_key \<times> county_key list) list"

definition has_node :: "graph \<Rightarrow> county_key \<Rightarrow> bool" where
  "has_node G n \<longleftrightarrow> map_of G n \<noteq> None"

definition neighbors :: "graph \<Rightarrow> county_key \<Rightarrow> county_key list" where
  "neighbors G n = (case map_of G n of None \<Rightarrow> [] | Some ns \<Rightarrow> ns)"

definition has_edge :: "graph \<Rightarrow> county_key \<Rightarrow> county_key \<Rightarrow> bool" where
  "has_edge G u v \<longleftrightarrow> v \<in> set (neighbors G u)"

definition add_node :: "county_key \<Rightarrow> graph \<Rightarrow> graph" where
  "add_node n G = (if has_node G n then G else AList.update n [] G)"

definition add_neighbor :: "county_key \<Rightarrow> county_key list \<Rightarrow> county_key list" where
  "add_neighbor v ns = (if v \<in> set ns then ns else ns @ [v])"

text \<open>
  \<^verbatim>\<open>G.add_edge(u, v)\<close>: both nodes are added when new, then \<open>v\<close> is entered among the
  neighbours of \<open>u\<close> and \<open>u\<close> among those of \<open>v\<close>.
\<close>

definition add_edge :: "county_key \<Rightarrow> county_key \<Rightarrow> graph \<Rightarrow> graph" where
  "add_edge u v G =
     (let G1 = add_node v (add_node u G);
          G2 = AList.update u (add_neighbor v (neighbors G1 u)) G1
      in AList.update v (add_neighbor u (neighbors G2 v)) G2)"

text \<open>\<^verbatim>\<open>G.degree\<close>: the number of neighbours, a self-loop counting twice.\<close>

definition degree :: "graph \<Rightarrow> county_key \<Rightarrow> nat" where
  "degree G n = length (neighbors G n) + (if n \<in> set (neighbors G n) then 1 else 0)"

text \<open>A dictionary has every key once: no node twice, no neighbour of a node twice.\<close>

definition wf_graph :: "graph \<Rightarrow> bool" where
  "wf_graph G \<longleftrightarrow>
     distinct (map fst G) \<and> list_all (\<lambda>n. distinct (neighbors G n)) (map fst G)"

subsection \<open>\<^verbatim>\<open>build_adjacency_graph\<close>\<close>

text \<open>
  A row of the frame read from the shapefile, after
  \<^verbatim>\<open>gdf['STATE'] = gdf['STATEFP'].astype(int)\<close> and the same for the county code: the two
  codes are integers here. The geometry is of any type \<open>'g\<close>; the predicate
  \<^verbatim>\<open>touches\<close> of the geometry library is the parameter \<open>touches\<close>, and
  \<^verbatim>\<open>gdf.geometry.touches(county.geometry)\<close> holds of the row \<open>g\<close> when \<open>touches\<close> holds of the
  geometry of \<open>g\<close> and that of \<open>county\<close>.
\<close>

record 'g county_shape =
  STATE :: int
  COUNTY :: int
  geometry :: 'g

definition shape_key :: "'g county_shape \<Rightarrow> county_key" where
  "shape_key c = (STATE c, COUNTY c)"

text \<open>A row of the adjacency frame: \<^verbatim>\<open>County_STATE, COUNTY, Neighbor_STATE, Neighbor_COUNTY\<close>.\<close>

type_synonym adjacency_row = "int \<times> int \<times> int \<times> int"

definition adjacency_county :: "adjacency_row \<Rightarrow> county_key" where
  "adjacency_county row = (fst row, fst (snd row))"

definition adjacency_neighbor :: "adjacency_row \<Rightarrow> county_key" where
  "adjacency_neighbor row = (fst (snd (snd row)), snd (snd (snd row)))"

definition adjacency_list :: "('g \<Rightarrow> 'g \<Rightarrow> bool) \<Rightarrow> 'g county_shape list \<Rightarrow> adjacency_row list" where
  "adjacency_list touches gdf =
     concat (map (\<lambda>county.
        map (\<lambda>neighbor. (STATE county, COUNTY county, STATE neighbor, COUNTY neighbor))
            (filter (\<lambda>neighbor. touches (geometry neighbor) (geometry county)) gdf)) gdf)"

text \<open>\<^verbatim>\<open>drop_duplicates()\<close> keeps the first of equal rows.\<close>

definition drop_duplicates :: "'a list \<Rightarrow> 'a list" where
  "drop_duplicates rows = rev (remdups (rev rows))"

definition graph_of_adjacency :: "adjacency_row list \<Rightarrow> graph" where
  "graph_of_adjacency adjacency_df =
     fold (\<lambda>row G. add_edge (adjacency_county row) (adjacency_neighbor row) G) adjacency_df []"

text \<open>
  \<^verbatim>\<open>
    adjacency_df = pd.DataFrame(adjacency_list)
    adjacency_df = adjacency_df.drop_duplicates()
    adjacency_df = adjacency_df.sort_values(
        ['County_STATE', 'COUNTY', 'Neighbor_STATE', 'Neighbor_COUNTY'])
  \<close>
  The frame of an empty list has no column, and \<^verbatim>\<open>sort_values\<close> raises \<^verbatim>\<open>KeyError\<close> for
  the column it does not find. Otherwise the rows are pairwise different after
  \<^verbatim>\<open>drop_duplicates\<close> and the sort is by all four columns, lexicographically: no two rows
  have an equal key, and the result is the one sorted list of these rows.
\<close>

definition build_adjacency_graph ::
  "('g \<Rightarrow> 'g \<Rightarrow> bool) \<Rightarrow> 'g county_shape list \<Rightarrow> error + (adjacency_row list \<times> graph)" where
  "build_adjacency_graph touches gdf =
     (let rows = adjacency_list touches gdf in
      if rows = [] then Inl KeyError
      else
        let adjacency_df = sort (drop_duplicates rows)
        in Inr (adjacency_df, graph_of_adjacency adjacency_df))"

subsection \<open>\<^verbatim>\<open>get_degree_centrality\<close>\<close>

text \<open>
  \<^verbatim>\<open>
    degrees = dict(adjacency_graph.degree)
    degree_df = pd.DataFrame(list(degrees.items()), columns=["County", "Degree"])
    degree_df[['STATE', 'COUNTY']] = pd.DataFrame(
        degree_df['County'].tolist(), index=degree_df.index)
    degree_df.drop(columns=['County'], inplace=True)
    return degree_df.sort_values(by='Degree', ascending=False)
  \<close>
  The assignment to the two columns takes a frame with one column per component of the
  county pairs. pandas raises \<^verbatim>\<open>ValueError\<close> (columns must be same length as key) when that
  frame does not have two columns, and the frame made of an empty list has none: this is
  the case of a graph without nodes. A row of the result: \<^verbatim>\<open>Degree, STATE, COUNTY\<close>.
\<close>

type_synonym degree_row = "nat \<times> int \<times> int"

definition Degree :: "degree_row \<Rightarrow> real" where "Degree r = real (fst r)"

definition degree_county :: "degree_row \<Rightarrow> county_key" where "degree_county r = snd r"

definition degree_table :: "graph \<Rightarrow> degree_row list" where
  "degree_table G = map (\<lambda>(n, ns). (degree G n, fst n, snd n)) G"

definition get_degree_centrality ::
  "(degree_row list \<Rightarrow> degree_row list) \<Rightarrow> graph \<Rightarrow> error + degree_row list" where
  "get_degree_centrality srt adjacency_graph =
     (if adjacency_graph = [] then Inl ValueError
      else Inr (srt (degree_table adjacency_graph)))"

subsection \<open>\<^verbatim>\<open>calculate_pagerank\<close>\<close>

text \<open>
  A \<^verbatim>\<open>networkx.DiGraph\<close> with a weight on every edge: an association list from nodes to the
  association list of their successors. \<^verbatim>\<open>G.add_edge(u, v, weight=w)\<close> adds the nodes
  when new and sets the weight of the edge, replacing the weight of an edge that exists.
\<close>

type_synonym digraph = "(county_key \<times> (county_key \<times> real) list) list"

definition successors :: "digraph \<Rightarrow> county_key \<Rightarrow> (county_key \<times> real) list" where
  "successors G n = (case map_of G n of None \<Rightarrow> [] | Some succs \<Rightarrow> succs)"

definition edge_weight :: "digraph \<Rightarrow> county_key \<Rightarrow> county_key \<Rightarrow> real option" where
  "edge_weight G u v = map_of (successors G u) v"

definition di_has_edge :: "digraph \<Rightarrow> county_key \<Rightarrow> county_key \<Rightarrow> bool" where
  "di_has_edge G u v \<longleftrightarrow> edge_weight G u v \<noteq> None"

definition di_add_node :: "county_key \<Rightarrow> digraph \<Rightarrow> digraph" where
  "di_add_node n G = (if map_of G n \<noteq> None then G else AList.update n [] G)"

definition di_add_edge :: "county_key \<Rightarrow> county_key \<Rightarrow> real \<Rightarrow> digraph \<Rightarrow> digraph" where
  "di_add_edge u v w G =
     (let G1 = di_add_node v (di_add_node u G)
      in AList.update u (AList.update v w (successors G1 u)) G1)"


text \<open>A row of the weighted-network table; the two metric columns are floats.\<close>

record network_row =
  YEAR :: int
  County_STATE :: int
  County_COUNTY :: int
  metric_County :: real
  Neighbor_STATE :: int
  Neighbor_COUNTY :: int
  metric_Neighbor :: real

definition source :: "network_row \<Rightarrow> county_key" where
  "source row = (County_STATE row, County_COUNTY row)"

definition target :: "network_row \<Rightarrow> county_key" where
  "target row = (Neighbor_STATE row, Neighbor_COUNTY row)"

text \<open>
  The body of the loop over the rows:
  \<^verbatim>\<open>
    G.add_edge(source, target, weight=weight)
    if not G.has_edge(source, source):
        self_weight = row[f'{metric_col}_County']
        G.add_edge(source, source, weight=self_weight)
  \<close>
\<close>

definition pagerank_step :: "network_row \<Rightarrow> digraph \<Rightarrow> digraph" where
  "pagerank_step row G =
     (let G1 = di_add_edge (source row) (target row) (metric_Neighbor row) G
      in if \<not> di_has_edge G1 (source row) (source row)
         then di_add_edge (source row) (source row) (metric_County row) G1
         else G1)"

definition pagerank_graph :: "network_row list \<Rightarrow> digraph" where
  "pagerank_graph network_data = fold pagerank_step network_data []"

text \<open>
  \<^verbatim>\<open>nx.pagerank(G, weight='weight')\<close> returns the empty dictionary for a graph without
  nodes; for any other graph the scores, or the exception of an iteration that does not
  converge, are the parameter \<open>pr\<close>.
\<close>

type_synonym pagerank = "digraph \<Rightarrow> error + (county_key \<times> real) list"

definition nx_pagerank :: "pagerank \<Rightarrow> digraph \<Rightarrow> error + (county_key \<times> real) list" where
  "nx_pagerank pr G = (if G = [] then Inr [] else pr G)"

text \<open>A row of the score table: \<^verbatim>\<open>PageRank, County_STATE, COUNTY\<close>.\<close>

type_synonym pagerank_row = "real \<times> int \<times> int"

definition PageRank :: "pagerank_row \<Rightarrow> real" where "PageRank r = fst r"

text \<open>
  \<^verbatim>\<open>
    pagerank_df = pd.DataFrame.from_dict(pagerank_scores, orient='index',
                                         columns=['PageRank']).reset_index()
    pagerank_df.columns = ['County', 'PageRank']
    pagerank_df[['County_STATE', 'COUNTY']] = pd.DataFrame(
        pagerank_df['County'].tolist(), index=pagerank_df.index)
    pagerank_df.drop(columns=['County'], inplace=True)
    pagerank_df = pagerank_df.sort_values(by='PageRank', ascending=False)
    max_county = pagerank_df.iloc[0]
    return pagerank_df, (max_county['County_STATE'], max_county['COUNTY'], max_county['PageRank'])
  \<close>
  The assignment to the two columns is the one of \<^verbatim>\<open>get_degree_centrality\<close> and raises
  \<^verbatim>\<open>ValueError\<close> on a table without rows. \<^verbatim>\<open>iloc[0]\<close> raises \<^verbatim>\<open>IndexError\<close> on a table without
  rows.
\<close>

definition split_county_column :: "(county_key \<times> real) list \<Rightarrow> error + pagerank_row list" where
  "split_county_column scores =
     (if scores = [] then Inl ValueError
      else Inr (map (\<lambda>(county, score). (score, fst county, snd county)) scores))"

definition iloc_0 :: "'r list \<Rightarrow> error + 'r" where
  "iloc_0 rows = (case rows of [] \<Rightarrow> Inl IndexError | r # _ \<Rightarrow> Inr r)"

definition calculate_pagerank ::
  "pagerank \<Rightarrow> (pagerank_row list \<Rightarrow> pagerank_row list) \<Rightarrow> network_row list
     \<Rightarrow> error + (pagerank_row list \<times> (int \<times> int \<times> real))" where
  "calculate_pagerank pr srt network_data =
     (case nx_pagerank pr (pagerank_graph network_data) of
        Inl e \<Rightarrow> Inl e
      | Inr pagerank_scores \<Rightarrow>
          (case split_county_column pagerank_scores of
             Inl e \<Rightarrow> Inl e
           | Inr rows \<Rightarrow>
               let pagerank_df = srt rows in
               (case iloc_0 pagerank_df of
                  Inl e \<Rightarrow> Inl e
                | Inr max_county \<Rightarrow>
                    Inr (pagerank_df,
                         (fst (snd max_county), snd (snd max_county), PageRank max_county)))))"

text \<open>
  Stand-ins for evaluating on concrete input: geometries are numbered, with a table of
  the pairs that touch; every node gets the same score.
\<close>

definition touches_table :: "(int \<times> int) list \<Rightarrow> int \<Rightarrow> int \<Rightarrow> bool" where
  "touches_table pairs a b \<longleftrightarrow> (a, b) \<in> set pairs \<or> (b, a) \<in> set pairs"

definition pr_uniform :: pagerank where
  "pr_uniform G = Inr (map (\<lambda>(n, succs). (n, 1 / real (length G))) G)"


subsection \<open>\<^verbatim>\<open>calculate_county_similarity\<close>\<close>

text \<open>
  The feature frame: one row of floats per county, the index holding the pair
  (state code, county code) of the row. The codes are integers here, so that \<^verbatim>\<open>int(x[0])\<close>
  and \<^verbatim>\<open>int(x[1])\<close> are the codes themselves.
\<close>

record feature_frame =
  ff_index :: "county_key list"
  ff_values :: matrix

text \<open>
  The mean and the variance of the numbers of a list. A column has zero variance when
  its variance is 0, which is when all its entries are equal.
\<close>

definition np_mean :: "real list \<Rightarrow> real" where
  "np_mean xs = sum_list xs / real (length xs)"

definition np_var :: "real list \<Rightarrow> real" where
  "np_var xs = sum_list (map (\<lambda>x. (x - np_mean xs)\<^sup>2) xs) / real (length xs)"

definition column_of :: "matrix \<Rightarrow> nat \<Rightarrow> real list" where
  "column_of X j = map (\<lambda>row. row ! j) X"

text \<open>
  scikit-learn computes in floating point. The mean and the scale that \<^verbatim>\<open>StandardScaler\<close>
  finds for a column, its subtraction and its division, and the normalisation of a row
  and the product of two rows in \<^verbatim>\<open>cosine_similarity\<close> are functions of their arguments
  whose values are the library's: they are the fields of a record, and the two calls are
  modelled around them.
\<close>

record float_ops =
  fl_mean :: "real list \<Rightarrow> real"
  fl_scale :: "real list \<Rightarrow> real"
  fl_sub :: "real \<Rightarrow> real \<Rightarrow> real"
  fl_div :: "real \<Rightarrow> real \<Rightarrow> real"
  fl_normalize :: "real list \<Rightarrow> real list"
  fl_dot :: "real list \<Rightarrow> real list \<Rightarrow> real"

text \<open>
  \<^verbatim>\<open>StandardScaler().fit_transform(X)\<close>: \<^verbatim>\<open>fit\<close> finds the mean and the scale of every
  column, \<^verbatim>\<open>transform\<close> subtracts the mean from every entry of the column and divides by
  the scale. scikit-learn documents that a feature of zero variance is given the scale 1:
  no column makes the call raise. The input check raises \<^verbatim>\<open>ValueError\<close> on a matrix with
  no row or no column.
\<close>

definition StandardScaler_fit_transform :: "float_ops \<Rightarrow> matrix \<Rightarrow> error + matrix" where
  "StandardScaler_fit_transform fl X =
     (if X = [] \<or> hd X = [] then Inl ValueError
      else Inr (map (\<lambda>row. map (\<lambda>(j, x). fl_div fl (fl_sub fl x (fl_mean fl (column_of X j)))
                                                  (fl_scale fl (column_of X j)))
                               (enumerate 0 row)) X))"

text \<open>
  \<^verbatim>\<open>cosine_similarity(X)\<close>: every row is normalised, and the result is the matrix of the
  products of the normalised rows.
\<close>

definition cosine_similarity :: "float_ops \<Rightarrow> matrix \<Rightarrow> matrix" where
  "cosine_similarity fl X =
     (let X_normalized = map (fl_normalize fl) X
      in map (\<lambda>a. map (\<lambda>b. fl_dot fl a b) X_normalized) X_normalized)"

text \<open>
  The operations of exact arithmetic: the population standard deviation as scale, 1 in
  its place when it is zero; a row divided by its Euclidean norm, a zero norm replaced
  by 1. Where every mean, deviation, quotient, norm and product is a small integer, as for
  the matrices evaluated in this theory, the floating-point operations give these values.
\<close>

definition scaler_scale :: "real list \<Rightarrow> real" where
  "scaler_scale xs = (let s = sqrt (np_var xs) in if s = 0 then 1 else s)"

definition l2_norm :: "real list \<Rightarrow> real" where
  "l2_norm row = sqrt (sum_list (map (\<lambda>x. x\<^sup>2) row))"

definition normalize_row :: "real list \<Rightarrow> real list" where
  "normalize_row row = (let n = l2_norm row in map (\<lambda>x. x / (if n = 0 then 1 else n)) row)"

definition dot :: "real list \<Rightarrow> real list \<Rightarrow> real" where
  "dot a b = sum_list (map (\<lambda>(x, y). x * y) (zip a b))"

definition exact_arithmetic :: float_ops where
  "exact_arithmetic =
     \<lparr>fl_mean = np_mean, fl_scale = scaler_scale, fl_sub = (\<lambda>x y. x - y), fl_div = (\<lambda>x y. x / y),
      fl_normalize = normalize_row, fl_dot = dot\<rparr>"

text \<open>
  \<^verbatim>\<open>f"{int(x[0]):02d}{int(x[1]):03d}"\<close>: the decimal digits of each code, padded with zeros
  on the left to the width, the sign of a negative code coming first and counting in the
  width.
\<close>

definition digit_char :: "nat \<Rightarrow> char" where
  "digit_char d = ''0123456789'' ! d"

fun str_nat :: "nat \<Rightarrow> string" where
  "str_nat n = (if n < 10 then [digit_char n] else str_nat (n div 10) @ [digit_char (n mod 10)])"

declare str_nat.simps [simp del]

definition format_d :: "nat \<Rightarrow> int \<Rightarrow> string" where
  "format_d width i =
     (let ds = str_nat (nat \<bar>i\<bar>) in
      if i < 0 then CHR ''-'' # replicate (width - 1 - length ds) (CHR ''0'') @ ds
      else replicate (width - length ds) (CHR ''0'') @ ds)"

definition geoid :: "county_key \<Rightarrow> string" where
  "geoid x = format_d 2 (fst x) @ format_d 3 (snd x)"

text \<open>
  \<^verbatim>\<open>
    scaled_features = scaler.fit_transform(flattened_features)
    similarity = cosine_similarity(scaled_features)
    state_county_geoids = flattened_features.index.map(...)
    similarity_df = pd.DataFrame(similarity, index=state_county_geoids,
                                 columns=state_county_geoids)
  \<close>
  The frame constructor raises \<^verbatim>\<open>ValueError\<close> when the labels do not fit the matrix, which
  they do in a frame that has one index entry per row.
\<close>

definition calculate_county_similarity :: "float_ops \<Rightarrow> feature_frame \<Rightarrow> error + sim_frame" where
  "calculate_county_similarity fl flattened_features =
     (case StandardScaler_fit_transform fl (ff_values flattened_features) of
        Inl e \<Rightarrow> Inl e
      | Inr scaled_features \<Rightarrow>
          let similarity = cosine_similarity fl scaled_features;
              state_county_geoids = map geoid (ff_index flattened_features)
          in if length state_county_geoids = length similarity
             then Inr \<lparr>df_index = state_county_geoids, df_columns = state_county_geoids,
                       df_values = similarity\<rparr>
             else Inl ValueError)"

subsection \<open>\<^verbatim>\<open>analyze_cluster_characteristics\<close>\<close>

text \<open>
  The demographic table is a pandas frame with named columns of integers, strings or
  floats: an association list from column names to columns, in column order. The
  assignment \<^verbatim>\<open>data[c] = column\<close> replaces the column \<open>c\<close> where it stands, or appends it.
\<close>

datatype column = IntCol "int list" | StrCol "string list" | FloatCol "real list"

type_synonym dataframe = "(string \<times> column) list"

definition getitem :: "dataframe \<Rightarrow> string \<Rightarrow> error + column" where
  "getitem df c = (case map_of df c of None \<Rightarrow> Inl KeyError | Some col \<Rightarrow> Inr col)"

definition setitem :: "dataframe \<Rightarrow> string \<Rightarrow> column \<Rightarrow> dataframe" where
  "setitem df c col = AList.update c col df"

definition str_int :: "int \<Rightarrow> string" where
  "str_int i = (if i < 0 then CHR ''-'' # str_nat (nat (- i)) else str_nat (nat i))"

text \<open>
  \<^verbatim>\<open>astype(str)\<close>. The text of a float is Python's \<^verbatim>\<open>repr\<close> of it, the parameter \<open>fstr\<close>.
\<close>

fun astype_str :: "(real \<Rightarrow> string) \<Rightarrow> column \<Rightarrow> string list" where
  "astype_str fstr (IntCol xs) = map str_int xs"
| "astype_str fstr (StrCol xs) = xs"
| "astype_str fstr (FloatCol xs) = map fstr xs"

text \<open>\<^verbatim>\<open>str.zfill(width)\<close>, as Python's: zeros on the left, after a leading sign.\<close>

fun zfill :: "nat \<Rightarrow> string \<Rightarrow> string" where
  "zfill width [] = replicate width (CHR ''0'')"
| "zfill width (c # cs) =
     (if c = CHR ''+'' \<or> c = CHR ''-''
      then c # replicate (width - Suc (length cs)) (CHR ''0'') @ cs
      else replicate (width - Suc (length cs)) (CHR ''0'') @ c # cs)"

definition GEOID_column :: "(real \<Rightarrow> string) \<Rightarrow> column \<Rightarrow> column \<Rightarrow> string list" where
  "GEOID_column fstr state county =
     map (\<lambda>(s, c). s @ c)
       (zip (map (zfill 2) (astype_str fstr state)) (map (zfill 3) (astype_str fstr county)))"

text \<open>
  \<^verbatim>\<open>data.merge(clustered_df, on='GEOID', how='inner')\<close>, with \<^verbatim>\<open>clustered_df\<close> the frame of
  \<^verbatim>\<open>perform_clustering\<close>, rows (GEOID, Cluster): one merged row for every row of \<^verbatim>\<open>data\<close>
  and every row of \<^verbatim>\<open>clustered_df\<close> with the same GEOID, in the order of \<^verbatim>\<open>data\<close>. A merged row
  is the number of its row in \<^verbatim>\<open>data\<close> and its cluster.
\<close>

definition merge_inner :: "string list \<Rightarrow> (string \<times> nat) list \<Rightarrow> (nat \<times> nat) list" where
  "merge_inner geoids clustered_df =
     concat (map (\<lambda>(i, g). map (\<lambda>(g', cluster). (i, cluster))
                               (filter (\<lambda>(g', cluster). g' = g) clustered_df))
                 (enumerate 0 geoids))"

text \<open>The float values of a merged column; \<^verbatim>\<open>mean\<close> raises \<^verbatim>\<open>TypeError\<close> on strings.\<close>

fun numeric :: "column \<Rightarrow> error + real list" where
  "numeric (IntCol xs) = Inr (map real_of_int xs)"
| "numeric (FloatCol xs) = Inr xs"
| "numeric (StrCol xs) = Inl TypeError"

definition merged_column ::
  "dataframe \<Rightarrow> (nat \<times> nat) list \<Rightarrow> string \<Rightarrow> error + real list" where
  "merged_column data merged c =
     (if c = ''Cluster'' then Inr (map (\<lambda>(i, cluster). real cluster) merged)
      else case getitem data c of
             Inl e \<Rightarrow> Inl e
           | Inr col \<Rightarrow>
               (case numeric col of
                  Inl e \<Rightarrow> Inl e
                | Inr xs \<Rightarrow> Inr (map (\<lambda>(i, cluster). xs ! i) merged)))"

fun collect :: "(error + 'a) list \<Rightarrow> error + 'a list" where
  "collect [] = Inr []"
| "collect (Inl e # rs) = Inl e"
| "collect (Inr x # rs) = (case collect rs of Inl e \<Rightarrow> Inl e | Inr xs \<Rightarrow> Inr (x # xs))"

text \<open>
  \<^verbatim>\<open>merged.groupby('Cluster')[feature_cols].mean()\<close>: one row per cluster of the merged
  frame, in increasing order of the cluster, with the mean of every feature column over
  the rows of the cluster. A feature column that the merged frame does not have raises
  \<^verbatim>\<open>KeyError\<close>. When \<^verbatim>\<open>data\<close> has a column \<^verbatim>\<open>Cluster\<close> of its own, the merge renames both
  (\<^verbatim>\<open>Cluster_x\<close>, \<^verbatim>\<open>Cluster_y\<close>) and \<^verbatim>\<open>groupby('Cluster')\<close> raises \<^verbatim>\<open>KeyError\<close>.
\<close>

definition groupby_mean ::
  "dataframe \<Rightarrow> (nat \<times> nat) list \<Rightarrow> string list \<Rightarrow> error + (nat \<times> real list) list" where
  "groupby_mean data merged feature_cols =
     (if map_of data ''Cluster'' \<noteq> None then Inl KeyError
      else case collect (map (merged_column data merged) feature_cols) of
             Inl e \<Rightarrow> Inl e
           | Inr cols \<Rightarrow>
               Inr (map (\<lambda>cluster.
                      (cluster,
                       map (\<lambda>xs. np_mean (map snd (filter (\<lambda>(m, x). snd m = cluster) (zip merged xs))))
                           cols))
                    (sort (remdups (map snd merged)))))"

text \<open>
  \<^verbatim>\<open>
    data['GEOID'] = data['STATE'].astype(str).str.zfill(2) + data['COUNTY'].astype(str).str.zfill(3)
    merged = data.merge(clustered_df, on='GEOID', how='inner')
    cluster_summary = merged.groupby('Cluster')[feature_cols].mean()
    return cluster_summary
  \<close>
  \<^verbatim>\<open>data\<close> is the caller's object. The result is the pair of the table that the caller
  holds after the call and of what the call returns or raises.
\<close>

definition analyze_cluster_characteristics ::
  "(real \<Rightarrow> string) \<Rightarrow> dataframe \<Rightarrow> (string \<times> nat) list \<Rightarrow> string list
     \<Rightarrow> dataframe \<times> (error + (nat \<times> real list) list)" where
  "analyze_cluster_characteristics fstr data clustered_df feature_cols =
     (case getitem data ''STATE'' of
        Inl e \<Rightarrow> (data, Inl e)
      | Inr state \<Rightarrow>
          (case getitem data ''COUNTY'' of
             Inl e \<Rightarrow> (data, Inl e)
           | Inr county \<Rightarrow>
               let geoids = GEOID_column fstr state county;
                   data' = setitem data ''GEOID'' (StrCol geoids);
                   merged = merge_inner geoids clustered_df
               in (data', groupby_mean data' merged feature_cols)))"

text \<open>A stand-in for the text of a float, for evaluating on concrete input.\<close>

definition fstr_none :: "real \<Rightarrow> string" where
  "fstr_none x = []"

subsection \<open>Concrete frames\<close>

definition five_counties :: sim_frame where
  "five_counties =
     \<lparr>df_index = [''01001'', ''01003'', ''01005'', ''01007'', ''01009''],
      df_columns = [''01001'', ''01003'', ''01005'', ''01007'', ''01009''],
      df_values = [[1, 1/2, 1/2, 1/2, 1/2], [1/2, 1, 1/2, 1/2, 1/2], [1/2, 1/2, 1, 1/2, 1/2],
                   [1/2, 1/2, 1/2, 1, 1/2], [1/2, 1/2, 1/2, 1/2, 1]]\<rparr>"

definition three_counties :: sim_frame where
  "three_counties =
     \<lparr>df_index = [''01001'', ''01003'', ''01005''], df_columns = [''01001'', ''01003'', ''01005''],
      df_values = [[1, 4/5, 3/5], [9/10, 1, 1/5], [2/5, 3/5, 1]]\<rparr>"

definition three_shapes :: "int county_shape list" where
  "three_shapes =
     [\<lparr>STATE = 1, COUNTY = 3, geometry = 0\<rparr>, \<lparr>STATE = 1, COUNTY = 1, geometry = 1\<rparr>,
      \<lparr>STATE = 15, COUNTY = 5, geometry = 2\<rparr>]"


definition isolated_node_graph :: graph where
  "isolated_node_graph = add_node (15, 5) (add_edge (1, 1) (1, 3) [])"





definition demographic_table :: dataframe where
  "demographic_table =
     [(''STATE'', IntCol [1, 1, 15]), (''COUNTY'', IntCol [1, 3, 5]),
      (''AGE'', FloatCol [30, 40, 50])]"

section \<open>Properties\<close>

subsection \<open>The distance matrix of \<^verbatim>\<open>perform_clustering\<close>\<close>

lemma fill_diagonal_nth:
  "i < length a \<Longrightarrow> fill_diagonal a v ! i = (a ! i)[i := v]"
  by (simp add: fill_diagonal_def nth_enumerate_eq)

lemma length_fill_diagonal: "length (fill_diagonal a v) = length a"
  by (simp add: fill_diagonal_def)

lemma distance_matrix_length:
  "distance_matrix S = Inr D \<Longrightarrow> length D = length S"
  by (auto simp: distance_matrix_def normalize_similarity_def Let_def length_fill_diagonal
      split: if_splits)

lemma distance_matrix_row_length:
  "distance_matrix S = Inr D \<Longrightarrow> i < length S \<Longrightarrow> length (D ! i) = length (S ! i)"
  by (auto simp: distance_matrix_def normalize_similarity_def Let_def fill_diagonal_nth
      split: if_splits)

lemma distance_matrix_entry:
  assumes "distance_matrix S = Inr D" "i < length S" "j < length (S ! i)"
  shows "D ! i ! j =
     (if i = j then Fin 0
      else one_minus (np_divide (S ! i ! j - Min (set (concat S)))
                                (Max (set (concat S)) - Min (set (concat S)))))"
  using assms
  by (auto simp: distance_matrix_def normalize_similarity_def Let_def fill_diagonal_nth
      split: if_splits)

lemma distance_matrix_defined:
  "concat S \<noteq> [] \<Longrightarrow> \<exists>D. distance_matrix S = Inr D"
  by (simp add: distance_matrix_def normalize_similarity_def Let_def)

lemma scaled_entry_in_unit_interval:
  fixes x lo hi :: real
  assumes "lo \<le> x" "x \<le> hi" "lo < hi"
  shows "\<exists>d. one_minus (np_divide (x - lo) (hi - lo)) = Fin d \<and> 0 \<le> d \<and> d \<le> 1"
proof -
  from assms have "0 \<le> (x - lo) / (hi - lo)" "(x - lo) / (hi - lo) \<le> 1"
    by (simp_all add: divide_le_eq)
  with assms show ?thesis by (simp add: np_divide_def)
qed

lemma entry_in_concat:
  "i < length S \<Longrightarrow> j < length (S ! i) \<Longrightarrow> S ! i ! j \<in> set (concat S)"
  by (metis nth_mem set_concat UN_I)

text \<open>
  On every matrix whose entries are not all equal the distance matrix is as one expects
  it: entries in \<open>[0, 1]\<close>, a zero diagonal, and symmetric when the similarity is square
  and symmetric.
\<close>

lemma distance_matrix_nonconstant:
  assumes ne: "concat S \<noteq> []" and nc: "Min (set (concat S)) \<noteq> Max (set (concat S))"
  shows "\<exists>D. distance_matrix S = Inr D \<and>
    (\<forall>i<length S. \<forall>j<length (S ! i). \<exists>d. D ! i ! j = Fin d \<and> 0 \<le> d \<and> d \<le> 1) \<and>
    (\<forall>i<length S. i < length (S ! i) \<longrightarrow> D ! i ! i = Fin 0) \<and>
    ((\<forall>i<length S. length (S ! i) = length S) \<and> (\<forall>i<length S. \<forall>j<length S. S ! i ! j = S ! j ! i)
       \<longrightarrow> (\<forall>i<length S. \<forall>j<length S. D ! i ! j = D ! j ! i))"
proof -
  from distance_matrix_defined [OF ne] obtain D where D: "distance_matrix S = Inr D" ..
  let ?lo = "Min (set (concat S))" and ?hi = "Max (set (concat S))"
  have fin: "finite (set (concat S))" by simp
  have "?lo \<le> ?hi"
  proof -
    from ne obtain x where "x \<in> set (concat S)" by (cases "concat S") auto
    with fin have "?lo \<le> x" "x \<le> ?hi" by simp_all
    then show ?thesis by simp
  qed
  with nc have lt: "?lo < ?hi" by simp
  have range: "\<exists>d. D ! i ! j = Fin d \<and> 0 \<le> d \<and> d \<le> 1"
    if "i < length S" "j < length (S ! i)" for i j
  proof (cases "i = j")
    case True
    with distance_matrix_entry [OF D that] show ?thesis by simp
  next
    case False
    have mem: "S ! i ! j \<in> set (concat S)" using that by (rule entry_in_concat)
    have "?lo \<le> S ! i ! j" "S ! i ! j \<le> ?hi" using fin mem by simp_all
    from scaled_entry_in_unit_interval [OF this lt] distance_matrix_entry [OF D that] False
    show ?thesis by simp
  qed
  have diag: "D ! i ! i = Fin 0" if "i < length S" "i < length (S ! i)" for i
    using distance_matrix_entry [OF D that] by simp
  have sym: "D ! i ! j = D ! j ! i"
    if sq: "\<forall>i<length S. length (S ! i) = length S"
      and s: "\<forall>i<length S. \<forall>j<length S. S ! i ! j = S ! j ! i"
      and ij: "i < length S" "j < length S" for i j
  proof -
    have "j < length (S ! i)" "i < length (S ! j)" using sq ij by simp_all
    with distance_matrix_entry [OF D ij(1)] distance_matrix_entry [OF D ij(2)] s ij
    show ?thesis by auto
  qed
  show ?thesis
  proof (intro exI conjI)
    show "distance_matrix S = Inr D" by (rule D)
    show "\<forall>i<length S. \<forall>j<length (S ! i). \<exists>d. D ! i ! j = Fin d \<and> 0 \<le> d \<and> d \<le> 1"
      using range by simp
    show "\<forall>i<length S. i < length (S ! i) \<longrightarrow> D ! i ! i = Fin 0"
      using diag by simp
    show "(\<forall>i<length S. length (S ! i) = length S) \<and>
          (\<forall>i<length S. \<forall>j<length S. S ! i ! j = S ! j ! i)
          \<longrightarrow> (\<forall>i<length S. \<forall>j<length S. D ! i ! j = D ! j ! i)"
      using sym by simp
  qed
qed

text \<open>
  C1. The claim is for every similarity matrix. On a matrix whose entries are all equal
  and that has more than one row, \<^verbatim>\<open>similarity.max() - similarity.min()\<close> is 0, every
  normalised entry is 0/0, and the distance matrix keeps \<^verbatim>\<open>nan\<close> in every entry off the
  diagonal: those entries are not in \<open>[0, 1]\<close>. The all-zero matrix is the similarity of
  two counties with equal feature vectors (\<open>identical_counties_similarity\<close> below).
\<close>

theorem distance_matrix_constant_similarity:
  "distance_matrix [[0, 0], [0, 0]] = Inr [[Fin 0, NaN], [NaN, Fin 0]]"
  by (simp add: distance_matrix_def normalize_similarity_def fill_diagonal_def np_divide_def)

text \<open>K-Means then rejects the matrix: the clustering of such counties raises.\<close>

lemma perform_clustering_constant_similarity:
  "perform_clustering km \<lparr>df_index = [a, b], df_columns = [a, b], df_values = [[0, 0], [0, 0]]\<rparr> k
     = Inl ValueError"
  by (simp add: perform_clustering_def distance_matrix_def normalize_similarity_def
      fill_diagonal_def np_divide_def KMeans_fit_np_def all_finite_def)

subsection \<open>Top pairs\<close>

lemma sort_values_desc_stable: "sort_values_desc key (stable_sort_desc key)"
proof -
  have "sorted_wrt (\<lambda>a b. key b \<le> key a) (sort_key (\<lambda>r. - key r) rows)" for rows
  proof -
    have "sorted (map (\<lambda>r. - key r) (sort_key (\<lambda>r. - key r) rows))" by (rule sorted_sort_key)
    then show ?thesis by (simp add: sorted_map)
  qed
  then show ?thesis by (simp add: sort_values_desc_def stable_sort_desc_def)
qed

lemma sort_values_desc_set: "sort_values_desc key srt \<Longrightarrow> set (srt rows) = set rows"
  by (metis sort_values_desc_def mset_eq_setD)

lemma sort_values_desc_length: "sort_values_desc key srt \<Longrightarrow> length (srt rows) = length rows"
  by (metis sort_values_desc_def mset_eq_length)

lemma set_head_subset: "set (head n rows) \<subseteq> set rows"
  by (auto simp: head_def dest: in_set_takeD)

lemma sorted_wrt_head: "sorted_wrt P rows \<Longrightarrow> sorted_wrt P (head n rows)"
  by (simp add: head_def sorted_wrt_take)

lemma mset_head_subset: "mset (head n rows) \<subseteq># mset rows"
proof -
  have "mset (take k rows) \<subseteq># mset rows" for k
    by (metis append_take_drop_id mset_append mset_subset_eq_add_left)
  then show ?thesis by (simp add: head_def)
qed

lemma off_diagonal_five_counties:
  "off_diagonal five_counties =
  [(''01001'', ''01003'', 1/2), (''01001'', ''01005'', 1/2), (''01001'', ''01007'', 1/2),
   (''01001'', ''01009'', 1/2), (''01003'', ''01001'', 1/2), (''01003'', ''01005'', 1/2),
   (''01003'', ''01007'', 1/2), (''01003'', ''01009'', 1/2), (''01005'', ''01001'', 1/2),
   (''01005'', ''01003'', 1/2), (''01005'', ''01007'', 1/2), (''01005'', ''01009'', 1/2),
   (''01007'', ''01001'', 1/2), (''01007'', ''01003'', 1/2), (''01007'', ''01005'', 1/2),
   (''01007'', ''01009'', 1/2), (''01009'', ''01001'', 1/2), (''01009'', ''01003'', 1/2),
   (''01009'', ''01005'', 1/2), (''01009'', ''01007'', 1/2)]"
  by (simp add: off_diagonal_def unstack_def five_counties_def GEOID_1_def GEOID_2_def)

lemma map_filter_pads: "List.map_filter id (replicate k None) = []"
  by (simp add: List.map_filter_def)

lemma bitonic_network_8:
  "bitonic_network 8 =
     [(0, 1), (2, 3), (4, 5), (6, 7),
      (0, 3), (1, 2), (4, 7), (5, 6),
      (0, 1), (2, 3), (4, 5), (6, 7),
      (0, 7), (1, 6), (2, 5), (3, 4),
      (0, 2), (1, 3), (4, 6), (5, 7),
      (0, 1), (2, 3), (4, 5), (6, 7)]"
  by code_simp

lemma off_diagonal_three_counties:
  "off_diagonal three_counties =
     [(''01001'', ''01003'', 9/10), (''01001'', ''01005'', 2/5), (''01003'', ''01001'', 4/5),
      (''01003'', ''01005'', 3/5), (''01005'', ''01001'', 3/5), (''01005'', ''01003'', 1/5)]"
  by (simp add: off_diagonal_def unstack_def three_counties_def GEOID_1_def GEOID_2_def)

lemma top_pairs_three_counties:
  "get_top_similar_pairs (nargsort_desc Similarity) three_counties 100 =
     [(''01001'', ''01003'', 9/10), (''01003'', ''01001'', 4/5), (''01005'', ''01001'', 3/5),
      (''01003'', ''01005'', 3/5), (''01001'', ''01005'', 2/5), (''01005'', ''01003'', 1/5)]"
  by (simp add: get_top_similar_pairs_def off_diagonal_three_counties nargsort_desc_def
      np_argsort_def padded_length_def bitonic_network_8 compare_exchange_def Similarity_def
      head_def map_filter_pads)

text \<open>
  Keys that are all equal go through the network unmoved: the twenty pairs of five
  counties that are all equally similar come back in the order of their enumeration.
\<close>

lemma top_pairs_five_counties:
  "get_top_similar_pairs (nargsort_desc Similarity) five_counties 100 = off_diagonal five_counties"
  unfolding get_top_similar_pairs_def off_diagonal_five_counties
  by code_simp

text \<open>
  C2, as the code has it. Whatever order the sorting routine gives to equal keys, the
  result has no row whose two identifiers are equal, its similarities are non-increasing,
  and its rows are rows of the enumeration (each at most as often as there).
\<close>

theorem top_pairs_sorted_without_self_pairs:
  assumes "sort_values_desc Similarity srt"
  shows "list_all (\<lambda>r. GEOID_1 r \<noteq> GEOID_2 r) (get_top_similar_pairs srt df n) \<and>
         sorted_wrt (\<lambda>a b. Similarity b \<le> Similarity a) (get_top_similar_pairs srt df n) \<and>
         mset (get_top_similar_pairs srt df n) \<subseteq># mset (off_diagonal df)"
proof -
  from assms have m: "mset (srt (off_diagonal df)) = mset (off_diagonal df)"
    and s: "sorted_wrt (\<lambda>a b. Similarity b \<le> Similarity a) (srt (off_diagonal df))"
    by (simp_all add: sort_values_desc_def)
  from m have "set (srt (off_diagonal df)) = set (off_diagonal df)" by (rule mset_eq_setD)
  then have "set (get_top_similar_pairs srt df n) \<subseteq> set (off_diagonal df)"
    using set_head_subset [of n "srt (off_diagonal df)"] by (simp add: get_top_similar_pairs_def)
  then have a: "list_all (\<lambda>r. GEOID_1 r \<noteq> GEOID_2 r) (get_top_similar_pairs srt df n)"
    by (auto simp: off_diagonal_def list_all_iff)
  have b: "sorted_wrt (\<lambda>a b. Similarity b \<le> Similarity a) (get_top_similar_pairs srt df n)"
    unfolding get_top_similar_pairs_def using s by (rule sorted_wrt_head)
  have c: "mset (get_top_similar_pairs srt df n) \<subseteq># mset (off_diagonal df)"
    unfolding get_top_similar_pairs_def
    using mset_head_subset [of n "srt (off_diagonal df)"] m by simp
  from a b c show ?thesis by blast
qed

theorem top_pairs_sorted_without_self_pairs_witness:
  "sort_values_desc Similarity (stable_sort_desc Similarity) \<and>
   list_all (\<lambda>r. GEOID_1 r \<noteq> GEOID_2 r)
     (get_top_similar_pairs (stable_sort_desc Similarity) five_counties 3) \<and>
   sorted_wrt (\<lambda>a b. Similarity b \<le> Similarity a)
     (get_top_similar_pairs (stable_sort_desc Similarity) five_counties 3) \<and>
   mset (get_top_similar_pairs (stable_sort_desc Similarity) five_counties 3)
     \<subseteq># mset (off_diagonal five_counties)"
  using top_pairs_sorted_without_self_pairs [OF sort_values_desc_stable, of five_counties 3]
    sort_values_desc_stable [of Similarity]
  by simp

text \<open>
  C2, as stated, asks in addition that rows of equal similarity keep their enumeration
  order. The sort does not keep it. In the frame \<open>three_counties\<close> the pairs
  \<open>(01003, 01005)\<close> and \<open>(01005, 01001)\<close> have the same similarity \<open>3/5\<close> and are enumerated in
  this order; the network returns \<open>(01005, 01001)\<close> first.
\<close>

theorem top_pairs_ties_not_in_enumeration_order:
  "get_top_similar_pairs (nargsort_desc Similarity) three_counties 100 =
     [(''01001'', ''01003'', 9/10), (''01003'', ''01001'', 4/5), (''01005'', ''01001'', 3/5),
      (''01003'', ''01005'', 3/5), (''01001'', ''01005'', 2/5), (''01005'', ''01003'', 1/5)] \<and>
   \<not> ties_in_enumeration_order (off_diagonal three_counties)
       (get_top_similar_pairs (nargsort_desc Similarity) three_counties 100)"
proof
  show "get_top_similar_pairs (nargsort_desc Similarity) three_counties 100 =
     [(''01001'', ''01003'', 9/10), (''01003'', ''01001'', 4/5), (''01005'', ''01001'', 3/5),
      (''01003'', ''01005'', 3/5), (''01001'', ''01005'', 2/5), (''01005'', ''01003'', 1/5)]"
    by (rule top_pairs_three_counties)
  let ?out = "get_top_similar_pairs (nargsort_desc Similarity) three_counties 100"
  show "\<not> ties_in_enumeration_order (off_diagonal three_counties) ?out"
  proof
    assume "ties_in_enumeration_order (off_diagonal three_counties) ?out"
    then have "filter (\<lambda>r. Similarity r = 3/5) ?out =
        take (length (filter (\<lambda>r. Similarity r = 3/5) ?out))
          (filter (\<lambda>r. Similarity r = 3/5) (off_diagonal three_counties))"
      unfolding ties_in_enumeration_order_def
      by (rule bspec) (simp add: top_pairs_three_counties Similarity_def)
    then show False
      by (simp add: top_pairs_three_counties off_diagonal_three_counties Similarity_def)
  qed
qed

subsection \<open>Evaluation over a range of cluster counts\<close>


text \<open>The exception is K-Means' \<^verbatim>\<open>ValueError\<close> when no earlier cluster count fails.\<close>

lemma evaluate_first_too_large:
  "int (length D) < k \<Longrightarrow> evaluate_clustering_performance km sil D (k # ks) = Inl ValueError"
  by (simp add: evaluate_clustering_performance_def KMeans_fit_def)




text \<open>
  C8 is about the inertia values themselves. They are the second component of what the
  parameter \<open>km\<close> returns, one independent fit per cluster count, and
  \<open>evaluate_loop\<close> only appends them: the source relates the values of different
  cluster counts in no way.
\<close>

subsection \<open>The adjacency graph\<close>

lemma neighbors_add_node: "neighbors (add_node n G) k = neighbors G k"
  by (auto simp: neighbors_def add_node_def has_node_def update_conv' split: option.splits)

lemma neighbors_update: "neighbors (AList.update u ns G) k = (if k = u then ns else neighbors G k)"
  by (simp add: neighbors_def update_conv')

lemma set_add_neighbor: "set (add_neighbor v ns) = insert v (set ns)"
  by (auto simp: add_neighbor_def)

lemma distinct_add_neighbor: "distinct ns \<Longrightarrow> distinct (add_neighbor v ns)"
  by (simp add: add_neighbor_def)

lemma neighbors_add_edge:
  "neighbors (add_edge u v G) k =
     (if k = v then add_neighbor u (if u = v then add_neighbor v (neighbors G u) else neighbors G v)
      else if k = u then add_neighbor v (neighbors G u)
      else neighbors G k)"
  by (simp add: add_edge_def Let_def neighbors_update neighbors_add_node)

lemma has_edge_add_edge:
  "has_edge (add_edge u v G) a b \<longleftrightarrow> (a = u \<and> b = v) \<or> (a = v \<and> b = u) \<or> has_edge G a b"
  by (auto simp: has_edge_def neighbors_add_edge set_add_neighbor)

lemma has_edge_empty: "\<not> has_edge [] a b"
  by (simp add: has_edge_def neighbors_def)

lemma keys_add_node: "fst ` set (add_node n G) = insert n (fst ` set G)"
  by (auto simp: add_node_def has_node_def dom_update map_of_eq_None_iff)

lemma keys_add_edge: "fst ` set (add_edge u v G) = insert u (insert v (fst ` set G))"
  by (auto simp: add_edge_def Let_def dom_update keys_add_node)

lemma distinct_add_node: "distinct (map fst G) \<Longrightarrow> distinct (map fst (add_node n G))"
  by (simp add: add_node_def distinct_update)

lemma distinct_add_edge: "distinct (map fst G) \<Longrightarrow> distinct (map fst (add_edge u v G))"
  by (simp add: add_edge_def Let_def distinct_update distinct_add_node)

lemma wf_graph_iff: "wf_graph G \<longleftrightarrow> distinct (map fst G) \<and> (\<forall>n. distinct (neighbors G n))"
proof -
  have "neighbors G n = []" if "n \<notin> fst ` set G" for n
    using that by (simp add: neighbors_def map_of_eq_None_iff [THEN iffD2])
  then have "(\<forall>n \<in> fst ` set G. distinct (neighbors G n)) \<longleftrightarrow> (\<forall>n. distinct (neighbors G n))"
    by (metis distinct.simps(1))
  then show ?thesis by (simp add: wf_graph_def list_all_iff)
qed

lemma wf_graph_add_edge:
  assumes "wf_graph G"
  shows "wf_graph (add_edge u v G)"
proof -
  from assms have d: "distinct (map fst G)" by (simp add: wf_graph_iff)
  have n: "distinct (neighbors G k)" for k using assms wf_graph_iff by blast
  have "distinct (neighbors (add_edge u v G) k)" for k
    by (simp add: neighbors_add_edge distinct_add_neighbor n)
  with distinct_add_edge [OF d] show ?thesis unfolding wf_graph_iff by blast
qed

lemma wf_graph_empty: "wf_graph []"
  by (simp add: wf_graph_def)

lemma fold_add_edge_wf:
  "wf_graph G \<Longrightarrow>
   wf_graph (fold (\<lambda>row G. add_edge (adjacency_county row) (adjacency_neighbor row) G) rows G)"
  by (induction rows arbitrary: G) (simp_all add: wf_graph_add_edge)

lemma fold_add_edge_has_edge:
  "has_edge (fold (\<lambda>row G. add_edge (adjacency_county row) (adjacency_neighbor row) G) rows G) a b
   \<longleftrightarrow> has_edge G a b \<or>
       (\<exists>row \<in> set rows. (a = adjacency_county row \<and> b = adjacency_neighbor row) \<or>
                          (a = adjacency_neighbor row \<and> b = adjacency_county row))"
  by (induction rows arbitrary: G) (auto simp: has_edge_add_edge)

lemma fold_add_edge_keys:
  "fst ` set (fold (\<lambda>row G. add_edge (adjacency_county row) (adjacency_neighbor row) G) rows G)
   = fst ` set G \<union> adjacency_county ` set rows \<union> adjacency_neighbor ` set rows"
  by (induction rows arbitrary: G) (auto simp: keys_add_edge)

lemma graph_of_adjacency_has_edge:
  "has_edge (graph_of_adjacency rows) a b \<longleftrightarrow>
     (\<exists>row \<in> set rows. (a = adjacency_county row \<and> b = adjacency_neighbor row) \<or>
                        (a = adjacency_neighbor row \<and> b = adjacency_county row))"
  by (simp add: graph_of_adjacency_def fold_add_edge_has_edge has_edge_empty)

lemma graph_of_adjacency_wf: "wf_graph (graph_of_adjacency rows)"
  by (simp add: graph_of_adjacency_def fold_add_edge_wf wf_graph_empty)

lemma set_adjacency_list:
  "set (adjacency_list touches gdf) =
     {(STATE p, COUNTY p, STATE q, COUNTY q) | p q.
        p \<in> set gdf \<and> q \<in> set gdf \<and> touches (geometry q) (geometry p)}"
  by (auto simp: adjacency_list_def)

lemma set_drop_duplicates: "set (drop_duplicates rows) = set rows"
  by (simp add: drop_duplicates_def)

lemma distinct_drop_duplicates: "distinct (drop_duplicates rows)"
  by (simp add: drop_duplicates_def)



lemma build_adjacency_graph_properties:
  assumes "build_adjacency_graph touches gdf = Inr (adjacency_df, G)"
  shows "adjacency_df \<noteq> []" "distinct adjacency_df" "sorted adjacency_df" "wf_graph G"
    "set adjacency_df = {(STATE p, COUNTY p, STATE q, COUNTY q) | p q.
        p \<in> set gdf \<and> q \<in> set gdf \<and> touches (geometry q) (geometry p)}"
    "has_edge G a b \<longleftrightarrow>
       (\<exists>p \<in> set gdf. \<exists>q \<in> set gdf. (touches (geometry q) (geometry p) \<or> touches (geometry p) (geometry q))
           \<and> a = shape_key p \<and> b = shape_key q)"
proof -
  from assms have ne: "adjacency_list touches gdf \<noteq> []"
    and df: "adjacency_df = sort (drop_duplicates (adjacency_list touches gdf))"
    and G: "G = graph_of_adjacency adjacency_df"
    by (auto simp: build_adjacency_graph_def Let_def split: if_splits)
  show "distinct adjacency_df" "sorted adjacency_df"
    by (simp_all add: df distinct_drop_duplicates)
  show "wf_graph G" by (simp add: G graph_of_adjacency_wf)
  show s: "set adjacency_df = {(STATE p, COUNTY p, STATE q, COUNTY q) | p q.
        p \<in> set gdf \<and> q \<in> set gdf \<and> touches (geometry q) (geometry p)}"
    by (simp add: df set_drop_duplicates set_adjacency_list)
  from ne have "set adjacency_df \<noteq> {}" by (simp add: df set_drop_duplicates)
  then show "adjacency_df \<noteq> []" by auto
  show "has_edge G a b \<longleftrightarrow>
       (\<exists>p \<in> set gdf. \<exists>q \<in> set gdf. (touches (geometry q) (geometry p) \<or> touches (geometry p) (geometry q))
           \<and> a = shape_key p \<and> b = shape_key q)"
    unfolding G graph_of_adjacency_has_edge s
    by (auto simp: adjacency_county_def adjacency_neighbor_def shape_key_def) blast+
qed


lemma build_three_shapes:
  "build_adjacency_graph (touches_table [(0, 1)]) three_shapes =
   Inr ([(1, 1, 1, 3), (1, 3, 1, 1)], [((1, 1), [(1, 3)]), ((1, 3), [(1, 1)])])"
  by (simp add: build_adjacency_graph_def adjacency_list_def three_shapes_def touches_table_def
      drop_duplicates_def graph_of_adjacency_def add_edge_def add_node_def has_node_def
      neighbors_def add_neighbor_def adjacency_county_def adjacency_neighbor_def Let_def)






subsection \<open>Degree centrality\<close>

lemma set_degree_table:
  "set (degree_table G) = (\<lambda>n. (degree G n, fst n, snd n)) ` fst ` set G"
  by (auto simp: degree_table_def image_iff) (metis fst_conv)+

text \<open>
  C5, as the code has it: a node of the graph given to \<^verbatim>\<open>get_degree_centrality\<close> that has
  no neighbour gets a row, and every row of it has degree 0.
\<close>

theorem degree_of_isolated_node:
  assumes srt: "sort_values_desc Degree srt"
    and node: "has_node G c" and iso: "neighbors G c = []"
  shows "\<exists>out. get_degree_centrality srt G = Inr out \<and>
           (0, fst c, snd c) \<in> set out \<and>
           list_all (\<lambda>r. degree_county r = c \<longrightarrow> fst r = 0) out"
proof -
  from node have c: "c \<in> fst ` set G" by (simp add: has_node_def map_of_eq_None_iff)
  then have ne: "G \<noteq> []" by auto
  have out: "get_degree_centrality srt G = Inr (srt (degree_table G))"
    using ne by (simp add: get_degree_centrality_def)
  have s: "set (srt (degree_table G)) = (\<lambda>n. (degree G n, fst n, snd n)) ` fst ` set G"
    using sort_values_desc_set [OF srt] by (simp add: set_degree_table)
  have d: "degree G c = 0" by (simp add: degree_def iso)
  have a: "(0, fst c, snd c) \<in> set (srt (degree_table G))"
    unfolding s using c d by force
  have b: "list_all (\<lambda>r. degree_county r = c \<longrightarrow> fst r = 0) (srt (degree_table G))"
    unfolding list_all_iff s using d by (auto simp: degree_county_def)
  from out a b show ?thesis by blast
qed

lemma degree_table_three_shapes:
  "get_degree_centrality (stable_sort_desc Degree) [((1, 1), [(1, 3)]), ((1, 3), [(1, 1)])]
     = Inr [(1, 1, 1), (1, 1, 3)]"
  by (simp add: get_degree_centrality_def degree_table_def degree_def neighbors_def
     stable_sort_desc_def Degree_def)

lemma isolated_node_graph_eq:
  "isolated_node_graph = [((1, 1), [(1, 3)]), ((1, 3), [(1, 1)]), ((15, 5), [])]"
  by (simp add: isolated_node_graph_def add_edge_def add_node_def has_node_def neighbors_def
      add_neighbor_def Let_def)

theorem degree_of_isolated_node_witness:
  "sort_values_desc Degree (stable_sort_desc Degree) \<and>
   has_node isolated_node_graph (15, 5) \<and> neighbors isolated_node_graph (15, 5) = [] \<and>
   (\<exists>out. get_degree_centrality (stable_sort_desc Degree) isolated_node_graph = Inr out \<and>
          (0, 15, 5) \<in> set out)"
proof -
  have h: "has_node isolated_node_graph (15, 5)" "neighbors isolated_node_graph (15, 5) = []"
    by (simp_all add: isolated_node_graph_eq has_node_def neighbors_def)
  from degree_of_isolated_node [OF sort_values_desc_stable h] sort_values_desc_stable [of Degree] h
  show ?thesis by auto
qed

text \<open>
  C5, as stated, is about a county of the input that has no adjacency edge. The graph of
  \<^verbatim>\<open>build_adjacency_graph\<close> is made of \<^verbatim>\<open>add_edge\<close> calls only: such a county is not a node
  of it, and the degree table has no row for it, rather than a row with degree 0. Here
  county (15, 5) touches nothing.
\<close>

theorem isolated_county_missing_from_degree_table:
  "\<lparr>STATE = 15, COUNTY = 5, geometry = 2\<rparr> \<in> set three_shapes \<and>
   (\<forall>g. \<not> touches_table [(0, 1)] 2 g) \<and>
   build_adjacency_graph (touches_table [(0, 1)]) three_shapes =
     Inr ([(1, 1, 1, 3), (1, 3, 1, 1)], [((1, 1), [(1, 3)]), ((1, 3), [(1, 1)])]) \<and>
   get_degree_centrality (stable_sort_desc Degree) [((1, 1), [(1, 3)]), ((1, 3), [(1, 1)])] =
     Inr [(1, 1, 1), (1, 1, 3)]"
  by (simp add: build_three_shapes degree_table_three_shapes) (simp add: three_shapes_def touches_table_def)

lemma graph_of_adjacency_keys:
  "fst ` set (graph_of_adjacency rows) = adjacency_county ` set rows \<union> adjacency_neighbor ` set rows"
  by (simp add: graph_of_adjacency_def fold_add_edge_keys)

text \<open>The same for every collection with distinct keys.\<close>

lemma isolated_county_has_no_degree_row:
  assumes res: "build_adjacency_graph touches gdf = Inr (adjacency_df, G)"
    and srt: "sort_values_desc Degree srt"
    and keys: "distinct (map shape_key gdf)"
    and c: "c \<in> set gdf"
    and iso: "\<forall>q \<in> set gdf. \<not> touches (geometry q) (geometry c) \<and> \<not> touches (geometry c) (geometry q)"
  shows "\<exists>out. get_degree_centrality srt G = Inr out \<and> shape_key c \<notin> degree_county ` set out"
proof -
  note props = build_adjacency_graph_properties [OF res]
  from res have G: "G = graph_of_adjacency adjacency_df"
    by (auto simp: build_adjacency_graph_def Let_def split: if_splits)
  from keys have inj: "inj_on shape_key (set gdf)" by (simp add: distinct_map)
  have notnode: "shape_key c \<notin> fst ` set G"
  proof
    assume "shape_key c \<in> fst ` set G"
    then obtain row where row: "row \<in> set adjacency_df"
      "shape_key c = adjacency_county row \<or> shape_key c = adjacency_neighbor row"
      unfolding G graph_of_adjacency_keys by auto
    from row(1) obtain p q where pq: "p \<in> set gdf" "q \<in> set gdf"
      "touches (geometry q) (geometry p)" "row = (STATE p, COUNTY p, STATE q, COUNTY q)"
      unfolding props(5) by blast
    from row(2) pq(4) have "shape_key c = shape_key p \<or> shape_key c = shape_key q"
      by (simp add: adjacency_county_def adjacency_neighbor_def shape_key_def)
    with inj c pq(1,2) have "c = p \<or> c = q" by (auto dest: inj_onD)
    with pq iso show False by auto
  qed
  have ne: "G \<noteq> []"
  proof -
    from props(1) obtain row where "row \<in> set adjacency_df" by (cases adjacency_df) auto
    then have "adjacency_county row \<in> fst ` set G" unfolding G graph_of_adjacency_keys by blast
    then show ?thesis by auto
  qed
  have "degree_county ` set (srt (degree_table G)) = fst ` set G"
    using sort_values_desc_set [OF srt, of "degree_table G"]
    by (simp add: set_degree_table degree_county_def image_image)
  with notnode ne show ?thesis by (simp add: get_degree_centrality_def)
qed

subsection \<open>The graph of \<^verbatim>\<open>calculate_pagerank\<close>\<close>

lemma successors_di_add_node: "successors (di_add_node n G) k = successors G k"
  by (auto simp: successors_def di_add_node_def update_conv' split: option.splits)

lemma successors_update:
  "successors (AList.update u s G) k = (if k = u then s else successors G k)"
  by (simp add: successors_def update_conv')

lemma successors_di_add_edge:
  "successors (di_add_edge u v w G) k =
     (if k = u then AList.update v w (successors G u) else successors G k)"
  by (simp add: di_add_edge_def Let_def successors_update successors_di_add_node)

lemma edge_weight_di_add_edge:
  "edge_weight (di_add_edge u v w G) a b =
     (if a = u \<and> b = v then Some w else edge_weight G a b)"
  by (simp add: edge_weight_def successors_di_add_edge update_conv')







lemma self_loop_pagerank_step:
  assumes "source row \<noteq> target row"
  shows "edge_weight (pagerank_step row G) v v =
     (if v = source row \<and> edge_weight G v v = None then Some (metric_County row)
      else edge_weight G v v)"
  using assms
  by (auto simp: pagerank_step_def Let_def di_has_edge_def edge_weight_di_add_edge)

lemma self_loop_fold:
  assumes "\<forall>row \<in> set rows. source row \<noteq> target row"
  shows "edge_weight (fold pagerank_step rows G) v v =
     (case edge_weight G v v of
        Some w \<Rightarrow> Some w
      | None \<Rightarrow> map_option metric_County (find (\<lambda>row. source row = v) rows))"
  using assms
proof (induction rows arbitrary: G)
  case Nil
  then show ?case by (simp split: option.splits)
next
  case (Cons row rows)
  then have IH: "edge_weight (fold pagerank_step rows (pagerank_step row G)) v v =
     (case edge_weight (pagerank_step row G) v v of
        Some w \<Rightarrow> Some w
      | None \<Rightarrow> map_option metric_County (find (\<lambda>row. source row = v) rows))"
    and ne: "source row \<noteq> target row" by simp_all
  show ?case
    by (simp add: IH self_loop_pagerank_step [OF ne] split: option.splits)
qed

lemma self_loop_pagerank_graph:
  assumes "\<forall>row \<in> set rows. source row \<noteq> target row"
  shows "edge_weight (pagerank_graph rows) v v =
           map_option metric_County (find (\<lambda>row. source row = v) rows)"
  using self_loop_fold [OF assms, of "[]" v]
  by (simp add: pagerank_graph_def edge_weight_def successors_def)



text \<open>A county that is the source of no row has no self-loop.\<close>

lemma no_self_loop_at_non_source:
  assumes "\<forall>row \<in> set network_data. source row \<noteq> target row"
    and "v \<notin> source ` set network_data"
  shows "\<not> di_has_edge (pagerank_graph network_data) v v"
proof -
  from assms(2) have "find (\<lambda>row. source row = v) network_data = None"
    by (auto simp: find_None_iff)
  then show ?thesis by (simp add: di_has_edge_def self_loop_pagerank_graph [OF assms(1)])
qed




subsection \<open>PageRank of an empty table\<close>

text \<open>
  C9, as the code has it. On a table with zero rows the graph has no node, the scores
  are the empty dictionary, and the assignment that splits the county pairs into the two
  code columns raises \<^verbatim>\<open>ValueError\<close>: no score table is returned. The statements after it,
  the sort and the selection of the first row, are not reached.
\<close>

theorem pagerank_of_empty_table_raises:
  "calculate_pagerank pr srt [] = Inl ValueError"
  by (simp add: calculate_pagerank_def nx_pagerank_def pagerank_graph_def split_county_column_def)

text \<open>
  C9, as stated, has the operation fail at the selection of the highest-scoring county,
  which is \<^verbatim>\<open>iloc[0]\<close> and its \<^verbatim>\<open>IndexError\<close>.
\<close>

theorem pagerank_of_empty_table_not_IndexError:
  "calculate_pagerank pr_uniform (stable_sort_desc PageRank) [] = Inl ValueError \<and>
   calculate_pagerank pr_uniform (stable_sort_desc PageRank) [] \<noteq> Inl IndexError"
  by (simp add: calculate_pagerank_def nx_pagerank_def pagerank_graph_def split_county_column_def)

text \<open>
  The selection itself cannot fail: once the scores are there and not empty, the
  operation returns.
\<close>

lemma selection_never_fails:
  assumes "sort_values_desc PageRank srt"
    and "nx_pagerank pr (pagerank_graph network_data) = Inr scores" and "scores \<noteq> []"
  shows "\<exists>res. calculate_pagerank pr srt network_data = Inr res"
proof -
  from assms(3) obtain rows where rows: "split_county_column scores = Inr rows" "rows \<noteq> []"
    by (simp add: split_county_column_def)
  from sort_values_desc_length [OF assms(1), of rows] rows(2) have "srt rows \<noteq> []" by auto
  then obtain r rs where "srt rows = r # rs" by (cases "srt rows") auto
  then show ?thesis by (simp add: calculate_pagerank_def assms(2) rows(1) iloc_0_def Let_def)
qed

subsection \<open>Similarity of counties\<close>

text \<open>The entries of a column of zero variance are all equal to its mean.\<close>

lemma zero_variance_constant:
  assumes "np_var xs = 0" "x \<in> set xs"
  shows "x = np_mean xs"
proof -
  from assms(2) have "xs \<noteq> []" by auto
  then have "real (length xs) \<noteq> 0" by simp
  with assms(1) have "sum_list (map (\<lambda>x. (x - np_mean xs)\<^sup>2) xs) = 0"
    by (simp add: np_var_def)
  moreover have "\<forall>y \<in> set (map (\<lambda>x. (x - np_mean xs)\<^sup>2) xs). 0 \<le> y" by auto
  ultimately have "\<forall>y \<in> set (map (\<lambda>x. (x - np_mean xs)\<^sup>2) xs). y = 0"
    by (simp only: sum_list_nonneg_eq_0_iff)
  with assms(2) have "(x - np_mean xs)\<^sup>2 = 0" by auto
  then show ?thesis by simp
qed




text \<open>No input makes the similarity computation fail with \<open>InvalidInputError\<close>.\<close>

lemma never_InvalidInputError:
  "calculate_county_similarity fl F \<noteq> Inl InvalidInputError"
  by (auto simp: calculate_county_similarity_def StandardScaler_fit_transform_def Let_def
      split: sum.splits if_splits)


lemma geoid_1_1: "geoid (1, 1) = ''01001''"
  by code_simp

lemma geoid_1_3: "geoid (1, 3) = ''01003''"
  by code_simp






text \<open>
  Two counties with equal feature vectors, of small integers: every column has zero
  variance, every entry is its column's mean, both rows are standardised to zeros, and
  the similarity frame is all zeros.
\<close>

lemma identical_counties_similarity:
  "calculate_county_similarity exact_arithmetic
     \<lparr>ff_index = [(1, 1), (1, 3)], ff_values = [[1, 2], [1, 2]]\<rparr> =
    Inr \<lparr>df_index = [''01001'', ''01003''], df_columns = [''01001'', ''01003''],
         df_values = [[0, 0], [0, 0]]\<rparr>"
  by (simp add: calculate_county_similarity_def StandardScaler_fit_transform_def
      exact_arithmetic_def column_of_def np_var_def np_mean_def scaler_scale_def
      cosine_similarity_def normalize_row_def l2_norm_def dot_def geoid_1_1 geoid_1_3 Let_def)

subsection \<open>Cluster characteristics\<close>

lemma analyze_data_after:
  assumes "map_of data ''STATE'' = Some state" "map_of data ''COUNTY'' = Some county"
  shows "fst (analyze_cluster_characteristics fstr data clustered_df feature_cols)
           = setitem data ''GEOID'' (StrCol (GEOID_column fstr state county))"
  using assms by (simp add: analyze_cluster_characteristics_def getitem_def Let_def)

lemma getitem_setitem_same: "map_of (setitem data c col) c = Some col"
  by (simp add: setitem_def update_conv')

lemma getitem_setitem_other: "c' \<noteq> c \<Longrightarrow> map_of (setitem data c col) c' = map_of data c'"
  by (simp add: setitem_def update_conv')

lemma setitem_new_column_changes: "map_of data c = None \<Longrightarrow> setitem data c col \<noteq> data"
  using getitem_setitem_same [of data c col] by auto

text \<open>
  C10. When the table has the columns \<^verbatim>\<open>STATE\<close> and \<^verbatim>\<open>COUNTY\<close>, the table that the caller holds
  after the call is the input with the column \<^verbatim>\<open>GEOID\<close> assigned, whatever the merge and the
  summary then do, also when they raise: the column \<^verbatim>\<open>GEOID\<close> holds the reconstructed
  identifiers, every other column is as before, and the table is not the one before the
  call when it had no column \<^verbatim>\<open>GEOID\<close>.
\<close>

theorem cluster_characteristics_writes_GEOID:
  assumes st: "map_of data ''STATE'' = Some state" and co: "map_of data ''COUNTY'' = Some county"
  shows "fst (analyze_cluster_characteristics fstr data clustered_df feature_cols)
           = setitem data ''GEOID'' (StrCol (GEOID_column fstr state county)) \<and>
         map_of (fst (analyze_cluster_characteristics fstr data clustered_df feature_cols)) ''GEOID''
           = Some (StrCol (GEOID_column fstr state county)) \<and>
         (\<forall>c. c \<noteq> ''GEOID'' \<longrightarrow>
            map_of (fst (analyze_cluster_characteristics fstr data clustered_df feature_cols)) c
              = map_of data c) \<and>
         (map_of data ''GEOID'' = None \<longrightarrow>
            fst (analyze_cluster_characteristics fstr data clustered_df feature_cols) \<noteq> data)"
  unfolding analyze_data_after [OF st co]
  using getitem_setitem_same getitem_setitem_other setitem_new_column_changes
  by (intro conjI allI impI) auto

lemma demographic_table_geoids:
  "GEOID_column fstr (IntCol [1, 1, 15]) (IntCol [1, 3, 5]) = [''01001'', ''01003'', ''15005'']"
  by code_simp

theorem cluster_characteristics_writes_GEOID_witness:
  "map_of demographic_table ''STATE'' = Some (IntCol [1, 1, 15]) \<and>
   map_of demographic_table ''COUNTY'' = Some (IntCol [1, 3, 5]) \<and>
   map_of demographic_table ''GEOID'' = None \<and>
   fst (analyze_cluster_characteristics fstr_none demographic_table
          [(''01001'', 0), (''01003'', 1), (''15005'', 0)] [''AGE''])
     = demographic_table @ [(''GEOID'', StrCol [''01001'', ''01003'', ''15005''])] \<and>
   fst (analyze_cluster_characteristics fstr_none demographic_table
          [(''01001'', 0), (''01003'', 1), (''15005'', 0)] [''AGE'']) \<noteq> demographic_table"
proof -
  have h: "map_of demographic_table ''STATE'' = Some (IntCol [1, 1, 15])"
    "map_of demographic_table ''COUNTY'' = Some (IntCol [1, 3, 5])"
    and g: "map_of demographic_table ''GEOID'' = None"
    by (simp_all add: demographic_table_def)
  have u: "setitem demographic_table ''GEOID'' (StrCol [''01001'', ''01003'', ''15005''])
     = demographic_table @ [(''GEOID'', StrCol [''01001'', ''01003'', ''15005''])]"
    by (simp add: setitem_def demographic_table_def)
  from cluster_characteristics_writes_GEOID [OF h, of fstr_none "[(''01001'', 0), (''01003'', 1), (''15005'', 0)]" "[''AGE'']"] h g u
  show ?thesis by (simp add: demographic_table_geoids)
qed

lemma demographic_table_summary:
  "snd (analyze_cluster_characteristics fstr_none demographic_table
          [(''01001'', 0), (''01003'', 1), (''15005'', 0)] [''AGE'']) = Inr [(0, [40]), (1, [40])]"
  by (simp add: analyze_cluster_characteristics_def getitem_def demographic_table_def Let_def
      demographic_table_geoids setitem_def merge_inner_def groupby_mean_def merged_column_def np_mean_def)

text \<open>Without one of the two code columns the call raises before it writes.\<close>

lemma analyze_without_key_columns:
  "map_of data ''STATE'' = None \<or> map_of data ''COUNTY'' = None \<Longrightarrow>
   analyze_cluster_characteristics fstr data clustered_df feature_cols = (data, Inl KeyError)"
  by (auto simp: analyze_cluster_characteristics_def getitem_def split: option.splits)

text \<open>The column stays written when the summary raises.\<close>

lemma mutation_survives_failure:
  "fst (analyze_cluster_characteristics fstr_none demographic_table [] [''INCOME''])
     = demographic_table @ [(''GEOID'', StrCol [''01001'', ''01003'', ''15005''])] \<and>
   snd (analyze_cluster_characteristics fstr_none demographic_table [] [''INCOME'']) = Inl KeyError"
  by (simp add: analyze_cluster_characteristics_def getitem_def demographic_table_def Let_def
      demographic_table_geoids setitem_def merge_inner_def groupby_mean_def merged_column_def)

end
